theory Spec2Isabelle
  imports Main "HOL-Library.Word"
begin

section \<open>Common types\<close>

text \<open>
  A Solidity \<open>address\<close> is a 160-bit value. A \<open>uint256\<close> is modelled as a natural number:
  every arithmetic step of the contracts is an increment by one of a counter that starts
  at zero, so the bound \<open>2 ^ 256\<close> is out of reach of any run and is not written out.
  A Solidity \<open>mapping\<close> is a total function whose default is the zero value of its range.
  A call that reverts leaves the storage as it was: an operation returns either an error
  or the new storage, and \<open>transact\<close> below keeps the old storage on an error.
  Events are not part of the storage and are left out. No function calls out of its
  contract, so the reentrancy guard behind \<open>nonReentrant\<close> is free at the start of
  every call and never fires; it is left out as well.
\<close>

type_synonym address = "160 word"
type_synonym uint256 = nat

datatype role = DEFAULT_ADMIN_ROLE | ADMIN_ROLE | VOTER_ROLE | ELECTION_CREATOR_ROLE

section \<open>The role-based contract: AccessControl.sol and VotingContract.sol\<close>

datatype error =
    MustHaveAdminRole
  | MustHaveElectionCreatorRole
  | MustHaveVoterRole
  | VoterAlreadyRegistered
  | VoterNotRegistered
  | EmptyVotersArray
  | TooManyVotersInBatch
  | ElectionNotFound uint256
  | CandidateNotFound uint256
  | VoterAlreadyVoted address
  | ElectionNotActive uint256
  | ElectionNotStarted uint256
  | ElectionEnded uint256
  | InvalidTimeRange uint256 uint256
  | InvalidCandidateData string string
  | CandidateNotInThisElection
  | ElectionAlreadyEnded
  | PausablePaused
  | PausableNotPaused

record Election =
  e_id :: uint256
  e_title :: string
  e_description :: string
  startTime :: uint256
  endTime :: uint256
  isActive :: bool
  totalVotes :: uint256
  candidateIds :: "uint256 list"
  hasVoted :: "address \<Rightarrow> bool"
  votes :: "uint256 \<Rightarrow> uint256"
  creator :: address
  createdAt :: uint256

record Candidate =
  c_id :: uint256
  c_name :: string
  c_description :: string
  voteCount :: uint256
  c_exists :: bool
  addedBy :: address
  addedAt :: uint256

record VoterProfile =
  voterAddress :: address
  isRegistered :: bool
  isEligible :: bool
  registrationTime :: uint256
  totalVotesCast :: uint256
  electionsVotedIn :: "uint256 \<Rightarrow> bool"

text \<open>
  The storage of the deployed contract. \<open>roles\<close> is the membership table of the inherited
  access-control base, \<open>paused\<close> the flag of the inherited Pausable base, and the two
  counters are \<open>_electionIds\<close> and \<open>_candidateIds\<close>.
\<close>

record VotingContract =
  roles :: "role \<Rightarrow> address \<Rightarrow> bool"
  voterRegistrationTime :: "address \<Rightarrow> uint256"
  isVoterRegistered :: "address \<Rightarrow> bool"
  paused :: bool
  electionIdCounter :: uint256
  candidateIdCounter :: uint256
  elections :: "uint256 \<Rightarrow> Election"
  candidates :: "uint256 \<Rightarrow> Candidate"
  voterProfiles :: "address \<Rightarrow> VoterProfile"

definition emptyElection :: Election where
  "emptyElection = \<lparr> e_id = 0, e_title = [], e_description = [], startTime = 0, endTime = 0,
     isActive = False, totalVotes = 0, candidateIds = [], hasVoted = (\<lambda>_. False),
     votes = (\<lambda>_. 0), creator = 0, createdAt = 0 \<rparr>"

definition emptyCandidate :: Candidate where
  "emptyCandidate = \<lparr> c_id = 0, c_name = [], c_description = [], voteCount = 0,
     c_exists = False, addedBy = 0, addedAt = 0 \<rparr>"

definition emptyVoterProfile :: VoterProfile where
  "emptyVoterProfile = \<lparr> voterAddress = 0, isRegistered = False, isEligible = False,
     registrationTime = 0, totalVotesCast = 0, electionsVotedIn = (\<lambda>_. False) \<rparr>"

subsection \<open>Inherited library operations\<close>

text \<open>
  Modelled from the spec: the OpenZeppelin bases (AccessControl, Pausable, Counters) are
  imported by the contracts and are not among the sources. Role membership is a set
  relation per role; granting a role that is held and revoking one that is not held change
  nothing. The counters count up by one from zero. Pausing sets the flag and needs it
  clear, unpausing clears it and needs it set. The transactions below are those of the
  functions the source files declare; the role functions the base itself exposes are not
  part of the model.
\<close>

definition hasRole :: "VotingContract \<Rightarrow> role \<Rightarrow> address \<Rightarrow> bool" where
  "hasRole s r a = roles s r a"

definition grantRole' :: "role \<Rightarrow> address \<Rightarrow> VotingContract \<Rightarrow> VotingContract" where
  "grantRole' r a s = s\<lparr> roles := (roles s)(r := (roles s r)(a := True)) \<rparr>"

definition revokeRole' :: "role \<Rightarrow> address \<Rightarrow> VotingContract \<Rightarrow> VotingContract" where
  "revokeRole' r a s = s\<lparr> roles := (roles s)(r := (roles s r)(a := False)) \<rparr>"

subsection \<open>AccessControl.sol\<close>

definition constructor :: "address \<Rightarrow> VotingContract" where
  "constructor sender =
     (grantRole' ELECTION_CREATOR_ROLE sender
       (grantRole' ADMIN_ROLE sender
         (grantRole' DEFAULT_ADMIN_ROLE sender
           \<lparr> roles = (\<lambda>_ _. False),
             voterRegistrationTime = (\<lambda>_. 0),
             isVoterRegistered = (\<lambda>_. False),
             paused = False,
             electionIdCounter = 0,
             candidateIdCounter = 0,
             elections = (\<lambda>_. emptyElection),
             candidates = (\<lambda>_. emptyCandidate),
             voterProfiles = (\<lambda>_. emptyVoterProfile) \<rparr>)))"

text \<open>The body shared by \<open>registerVoter\<close> and by one round of the batch loop.\<close>

definition recordVoter :: "uint256 \<Rightarrow> address \<Rightarrow> VotingContract \<Rightarrow> VotingContract" where
  "recordVoter now voter s =
     (grantRole' VOTER_ROLE voter s)
       \<lparr> isVoterRegistered := (isVoterRegistered s)(voter := True),
         voterRegistrationTime := (voterRegistrationTime s)(voter := now) \<rparr>"

definition registerVoter ::
  "VotingContract \<Rightarrow> address \<Rightarrow> uint256 \<Rightarrow> address \<Rightarrow> error + VotingContract" where
  "registerVoter s sender now voter =
     (if \<not> hasRole s ADMIN_ROLE sender then Inl MustHaveAdminRole
      else if isVoterRegistered s voter then Inl VoterAlreadyRegistered
      else Inr (recordVoter now voter s))"

definition grantElectionCreatorRole ::
  "VotingContract \<Rightarrow> address \<Rightarrow> address \<Rightarrow> error + VotingContract" where
  "grantElectionCreatorRole s sender account =
     (if \<not> hasRole s ADMIN_ROLE sender then Inl MustHaveAdminRole
      else Inr (grantRole' ELECTION_CREATOR_ROLE account s))"

definition revokeElectionCreatorRole ::
  "VotingContract \<Rightarrow> address \<Rightarrow> address \<Rightarrow> error + VotingContract" where
  "revokeElectionCreatorRole s sender account =
     (if \<not> hasRole s ADMIN_ROLE sender then Inl MustHaveAdminRole
      else Inr (revokeRole' ELECTION_CREATOR_ROLE account s))"



text \<open>The \<open>for\<close> loop of \<open>batchRegisterVoters\<close>, one list element per round.\<close>

fun batchLoop :: "uint256 \<Rightarrow> address list \<Rightarrow> VotingContract \<Rightarrow> VotingContract" where
  "batchLoop now [] s = s"
| "batchLoop now (v # vs) s =
     batchLoop now vs (if \<not> isVoterRegistered s v then recordVoter now v s else s)"

definition batchRegisterVoters ::
  "VotingContract \<Rightarrow> address \<Rightarrow> uint256 \<Rightarrow> address list \<Rightarrow> error + VotingContract" where
  "batchRegisterVoters s sender now voters =
     (if \<not> hasRole s ADMIN_ROLE sender then Inl MustHaveAdminRole
      else if \<not> length voters > 0 then Inl EmptyVotersArray
      else if \<not> length voters \<le> 100 then Inl TooManyVotersInBatch
      else Inr (batchLoop now voters s))"

subsection \<open>VotingContract.sol\<close>

definition createElection ::
  "VotingContract \<Rightarrow> address \<Rightarrow> uint256 \<Rightarrow> string \<Rightarrow> string \<Rightarrow> uint256 \<Rightarrow> uint256 \<Rightarrow>
     uint256 list \<Rightarrow> error + VotingContract" where
  "createElection s sender now title' description' startTime' endTime' candidateIds' =
     (if \<not> hasRole s ELECTION_CREATOR_ROLE sender then Inl MustHaveElectionCreatorRole
      else if paused s then Inl PausablePaused
      else if startTime' \<ge> endTime' then Inl (InvalidTimeRange startTime' endTime')
      else if startTime' \<le> now then Inl (InvalidTimeRange startTime' now)
      else
        let electionId = electionIdCounter s + 1;
            newElection = (elections s electionId)
              \<lparr> e_id := electionId,
                e_title := title',
                e_description := description',
                startTime := startTime',
                endTime := endTime',
                isActive := True,
                totalVotes := 0,
                candidateIds := candidateIds',
                creator := sender,
                createdAt := now \<rparr>
        in Inr (s\<lparr> electionIdCounter := electionId,
                   elections := (elections s)(electionId := newElection) \<rparr>))"

definition addCandidate ::
  "VotingContract \<Rightarrow> address \<Rightarrow> uint256 \<Rightarrow> string \<Rightarrow> string \<Rightarrow> error + VotingContract" where
  "addCandidate s sender now name' description' =
     (if \<not> hasRole s ELECTION_CREATOR_ROLE sender then Inl MustHaveElectionCreatorRole
      else if paused s then Inl PausablePaused
      else if length name' = 0 \<or> length description' = 0
        then Inl (InvalidCandidateData name' description')
      else
        let candidateId = candidateIdCounter s + 1
        in Inr (s\<lparr> candidateIdCounter := candidateId,
                   candidates := (candidates s)(candidateId :=
                     \<lparr> c_id = candidateId, c_name = name', c_description = description',
                       voteCount = 0, c_exists = True, addedBy = sender, addedAt = now \<rparr>) \<rparr>))"

text \<open>The linear scan of the roster in \<open>castVote\<close>, which stops at the first hit.\<close>

fun candidateInElection :: "uint256 list \<Rightarrow> uint256 \<Rightarrow> bool" where
  "candidateInElection [] candidateId = False"
| "candidateInElection (c # cs) candidateId =
     (if c = candidateId then True else candidateInElection cs candidateId)"

text \<open>
  \<open>castVote\<close> runs its modifiers in the order they are written: \<open>onlyVoter\<close>,
  \<open>electionExists\<close>, \<open>candidateExists\<close>, \<open>onlyDuringElection\<close>, \<open>hasNotVoted\<close>,
  \<open>whenNotPaused\<close>, \<open>nonReentrant\<close>, then the body, which scans the roster first.
\<close>

text \<open>The body of \<open>castVote\<close> after the roster scan: the vote and the voter profile.\<close>

definition recordVote :: "address \<Rightarrow> uint256 \<Rightarrow> uint256 \<Rightarrow> VotingContract \<Rightarrow> VotingContract" where
  "recordVote sender electionId candidateId s =
     (let election = elections s electionId;
          candidate = candidates s candidateId;
          profile = voterProfiles s sender
      in s\<lparr>
           elections := (elections s)(electionId := election
             \<lparr> hasVoted := (hasVoted election)(sender := True),
               votes := (votes election)(candidateId := votes election candidateId + 1),
               totalVotes := totalVotes election + 1 \<rparr>),
           candidates := (candidates s)(candidateId := candidate
             \<lparr> voteCount := voteCount candidate + 1 \<rparr>),
           voterProfiles := (voterProfiles s)(sender := profile
             \<lparr> totalVotesCast := totalVotesCast profile + 1,
               electionsVotedIn := (electionsVotedIn profile)(electionId := True) \<rparr>) \<rparr>)"

definition castVote ::
  "VotingContract \<Rightarrow> address \<Rightarrow> uint256 \<Rightarrow> uint256 \<Rightarrow> uint256 \<Rightarrow> error + VotingContract" where
  "castVote s sender now electionId candidateId =
     (if \<not> hasRole s VOTER_ROLE sender then Inl MustHaveVoterRole
      else if electionId = 0 \<or> electionId > electionIdCounter s
        then Inl (ElectionNotFound electionId)
      else if \<not> c_exists (candidates s candidateId) then Inl (CandidateNotFound candidateId)
      else if \<not> isActive (elections s electionId) then Inl (ElectionNotActive electionId)
      else if now < startTime (elections s electionId) then Inl (ElectionNotStarted electionId)
      else if now > endTime (elections s electionId) then Inl (ElectionEnded electionId)
      else if hasVoted (elections s electionId) sender then Inl (VoterAlreadyVoted sender)
      else if paused s then Inl PausablePaused
      else if \<not> candidateInElection (candidateIds (elections s electionId)) candidateId
        then Inl CandidateNotInThisElection
      else Inr (recordVote sender electionId candidateId s))"






definition endElection ::
  "VotingContract \<Rightarrow> address \<Rightarrow> uint256 \<Rightarrow> error + VotingContract" where
  "endElection s sender electionId =
     (if \<not> hasRole s ELECTION_CREATOR_ROLE sender then Inl MustHaveElectionCreatorRole
      else if electionId = 0 \<or> electionId > electionIdCounter s
        then Inl (ElectionNotFound electionId)
      else if \<not> isActive (elections s electionId) then Inl ElectionAlreadyEnded
      else Inr (s\<lparr> elections := (elections s)(electionId :=
                  (elections s electionId)\<lparr> isActive := False \<rparr>) \<rparr>))"

definition toggleElectionStatus ::
  "VotingContract \<Rightarrow> address \<Rightarrow> uint256 \<Rightarrow> error + VotingContract" where
  "toggleElectionStatus s sender electionId =
     (if \<not> hasRole s ELECTION_CREATOR_ROLE sender then Inl MustHaveElectionCreatorRole
      else if electionId = 0 \<or> electionId > electionIdCounter s
        then Inl (ElectionNotFound electionId)
      else Inr (s\<lparr> elections := (elections s)(electionId :=
                  (elections s electionId)
                    \<lparr> isActive := \<not> isActive (elections s electionId) \<rparr>) \<rparr>))"

definition pause :: "VotingContract \<Rightarrow> address \<Rightarrow> error + VotingContract" where
  "pause s sender =
     (if \<not> hasRole s ADMIN_ROLE sender then Inl MustHaveAdminRole
      else if paused s then Inl PausablePaused
      else Inr (s\<lparr> paused := True \<rparr>))"

definition unpause :: "VotingContract \<Rightarrow> address \<Rightarrow> error + VotingContract" where
  "unpause s sender =
     (if \<not> hasRole s ADMIN_ROLE sender then Inl MustHaveAdminRole
      else if \<not> paused s then Inl PausableNotPaused
      else Inr (s\<lparr> paused := False \<rparr>))"

subsection \<open>Transactions\<close>

text \<open>
  The state-changing entry points the two source files declare. A transaction carries
  \<open>msg.sender\<close>, \<open>block.timestamp\<close> and the call; a reverted one changes nothing.
\<close>

datatype call =
    RegisterVoter address
  | GrantElectionCreatorRole address
  | RevokeElectionCreatorRole address
  | BatchRegisterVoters "address list"
  | CreateElection string string uint256 uint256 "uint256 list"
  | AddCandidate string string
  | CastVote uint256 uint256
  | EndElection uint256
  | ToggleElectionStatus uint256
  | Pause
  | Unpause

fun dispatch :: "VotingContract \<Rightarrow> address \<Rightarrow> uint256 \<Rightarrow> call \<Rightarrow> error + VotingContract" where
  "dispatch s sender now (RegisterVoter v) = registerVoter s sender now v"
| "dispatch s sender now (GrantElectionCreatorRole a) = grantElectionCreatorRole s sender a"
| "dispatch s sender now (RevokeElectionCreatorRole a) = revokeElectionCreatorRole s sender a"
| "dispatch s sender now (BatchRegisterVoters vs) = batchRegisterVoters s sender now vs"
| "dispatch s sender now (CreateElection t d st en cs) = createElection s sender now t d st en cs"
| "dispatch s sender now (AddCandidate n d) = addCandidate s sender now n d"
| "dispatch s sender now (CastVote e c) = castVote s sender now e c"
| "dispatch s sender now (EndElection e) = endElection s sender e"
| "dispatch s sender now (ToggleElectionStatus e) = toggleElectionStatus s sender e"
| "dispatch s sender now Pause = pause s sender"
| "dispatch s sender now Unpause = unpause s sender"

type_synonym tx = "address \<times> uint256 \<times> call"

fun transact :: "VotingContract \<Rightarrow> tx \<Rightarrow> VotingContract" where
  "transact s (sender, now, c) =
     (case dispatch s sender now c of Inl err \<Rightarrow> s | Inr s' \<Rightarrow> s')"

definition run :: "VotingContract \<Rightarrow> tx list \<Rightarrow> VotingContract" where
  "run s txs = foldl transact s txs"

subsection \<open>Tally consistency\<close>

text \<open>
  The vote bookkeeping of one election is consistent when its total equals the sum of
  the per-candidate counts over the candidates that have a vote, and equals the number of
  addresses marked as having voted. The invariant of the whole ledger adds that a slot
  no election has been created in yet (index 0, or beyond the counter) holds no marks and
  no counts, which is what \<open>createElection\<close> relies on when it fills the next slot.
\<close>

definition tallyOk :: "Election \<Rightarrow> bool" where
  "tallyOk e \<longleftrightarrow> finite {c. 0 < votes e c}
     \<and> totalVotes e = sum (votes e) {c. 0 < votes e c}
     \<and> totalVotes e = card {a. hasVoted e a}"

definition ledgerInv :: "VotingContract \<Rightarrow> bool" where
  "ledgerInv s \<longleftrightarrow> (\<forall>i. tallyOk (elections s i)
     \<and> (i = 0 \<or> electionIdCounter s < i \<longrightarrow>
          hasVoted (elections s i) = (\<lambda>_. False) \<and> votes (elections s i) = (\<lambda>_. 0)))"

subsection \<open>Example runs\<close>

text \<open>
  Address 1 deploys the contract, registers address 2 as a voter, adds two candidates and
  creates election 1 over the window from 10 to 3600 with the roster 1, 2.
\<close>

definition setupTxs :: "tx list" where
  "setupTxs =
     [(1, 0, RegisterVoter 2),
      (1, 0, AddCandidate ''Alice'' ''first''),
      (1, 0, AddCandidate ''Bob'' ''second''),
      (1, 0, CreateElection ''E1'' ''board'' 10 3600 [1, 2])]"

definition openState :: VotingContract where
  "openState = run (constructor 1) setupTxs"

text \<open>The same storage after the administrator has paused the contract at time 5.\<close>

definition pausedState :: VotingContract where
  "pausedState = transact openState (1, 5, Pause)"

text \<open>The same storage after voter 2 has voted for candidate 1 at time 10.\<close>

definition votedState :: VotingContract where
  "votedState = transact openState (2, 10, CastVote 1 1)"

text \<open>
  A run in which election 1 is created with the roster 7 although no candidate was ever
  added.
\<close>

definition ghostState :: VotingContract where
  "ghostState = run (constructor 1)
     [(1, 0, RegisterVoter 2), (1, 0, CreateElection ''E'' ''ghost'' 10 20 [7])]"

section \<open>The role-management contract (unnamed source part 4)\<close>


text \<open>
  Modelled from the spec: the enumerable access-control base this contract calls
  (\<open>hasRole\<close>, \<open>_grantRole\<close>, \<open>_revokeRole\<close>, \<open>getRoleMemberCount\<close>) is not among the
  sources. A role is the set of principals holding it; since the contract counts the
  members of a role, they are kept as a list in which nobody is entered twice. The role
  administration set up by \<open>_setRoleAdmin\<close> is read by no function of the contract.
\<close>

record RoleManager =
  members :: "role \<Rightarrow> address list"

definition hasRole_rm :: "RoleManager \<Rightarrow> role \<Rightarrow> address \<Rightarrow> bool" where
  "hasRole_rm s r a \<longleftrightarrow> a \<in> set (members s r)"












definition isAdmin :: "RoleManager \<Rightarrow> address \<Rightarrow> bool" where
  "isAdmin s admin = hasRole_rm s ADMIN_ROLE admin"






section \<open>The owner-gated contract: VotingSystem.sol\<close>


record Candidate_vs =
  vc_id :: uint256
  vc_name :: string
  party :: string
  vc_voteCount :: uint256
  vc_exists :: bool

record Voter =
  authorized :: bool
  voted :: bool
  v_vote :: uint256
  v_exists :: bool

record Election_vs =
  ve_id :: uint256
  ve_title :: string
  ve_description :: string
  ve_startTime :: uint256
  ve_endTime :: uint256
  active :: bool
  ve_exists :: bool

text \<open>
  Modelled from the spec: \<open>owner\<close> and \<open>paused_vs\<close> are the storage of the imported
  Ownable and Pausable bases, which are not among the sources. The deployer is the owner;
  pausing sets the flag and needs it clear, unpausing clears it and needs it set.
\<close>

record VotingSystem =
  owner :: address
  paused_vs :: bool
  voters :: "address \<Rightarrow> Voter"
  candidates_vs :: "uint256 \<Rightarrow> Candidate_vs"
  elections_vs :: "uint256 \<Rightarrow> Election_vs"
  candidatesCount :: uint256
  electionsCount :: uint256
  totalVotes_vs :: uint256















section \<open>Facts about the example runs\<close>


lemma openState_facts:
  "hasRole openState VOTER_ROLE 2"
  "hasRole openState ADMIN_ROLE 1"
  "hasRole openState ELECTION_CREATOR_ROLE 1"
  "\<not> hasRole openState VOTER_ROLE 3"
  "electionIdCounter openState = 1"
  "isActive (elections openState 1)"
  "startTime (elections openState 1) = 10"
  "endTime (elections openState 1) = 3600"
  "candidateIds (elections openState 1) = [1, 2]"
  "c_exists (candidates openState 1)"
  "\<not> hasVoted (elections openState 1) 2"
  "\<not> paused openState"
  "\<not> isVoterRegistered openState 5"
  "totalVotes (elections openState 1) = 0"
  by (simp_all add: openState_def setupTxs_def run_def constructor_def emptyElection_def
      emptyCandidate_def hasRole_def grantRole'_def revokeRole'_def recordVoter_def registerVoter_def
      addCandidate_def createElection_def castVote_def recordVote_def Let_def)

lemma pausedState_facts:
  "hasRole pausedState VOTER_ROLE 2"
  "hasRole pausedState ADMIN_ROLE 1"
  "hasRole pausedState ELECTION_CREATOR_ROLE 1"
  "\<not> hasRole pausedState VOTER_ROLE 3"
  "electionIdCounter pausedState = 1"
  "isActive (elections pausedState 1)"
  "startTime (elections pausedState 1) = 10"
  "endTime (elections pausedState 1) = 3600"
  "candidateIds (elections pausedState 1) = [1, 2]"
  "c_exists (candidates pausedState 1)"
  "\<not> hasVoted (elections pausedState 1) 2"
  "paused pausedState"
  "\<not> isVoterRegistered pausedState 5"
  "totalVotes (elections pausedState 1) = 0"
  using openState_facts by (simp_all add: pausedState_def pause_def hasRole_def)

lemma ghostState_facts:
  "hasRole ghostState VOTER_ROLE 2"
  "electionIdCounter ghostState = 1"
  "isActive (elections ghostState 1)"
  "startTime (elections ghostState 1) = 10"
  "endTime (elections ghostState 1) = 20"
  "candidateIds (elections ghostState 1) = [7]"
  "\<not> c_exists (candidates ghostState 7)"
  "\<not> hasVoted (elections ghostState 1) 2"
  "\<not> paused ghostState"
  "candidateIdCounter ghostState = 0"
  by (simp_all add: ghostState_def run_def constructor_def emptyElection_def
      emptyCandidate_def hasRole_def grantRole'_def revokeRole'_def recordVoter_def registerVoter_def
      addCandidate_def createElection_def castVote_def recordVote_def Let_def)

lemma votedState_facts:
  "totalVotes (elections votedState 1) = 1"
  using openState_facts
  by (simp add: votedState_def castVote_def recordVote_def Let_def)

section \<open>Registration\<close>

lemma hasRole_recordVoter:
  "hasRole (recordVoter now v s) r a = (hasRole s r a \<or> (r = VOTER_ROLE \<and> a = v))"
  by (auto simp: recordVoter_def hasRole_def grantRole'_def)

lemma batchLoop_roles:
  "roles (batchLoop now vs s) =
     (\<lambda>r a. roles s r a \<or> (r = VOTER_ROLE \<and> a \<in> set vs \<and> \<not> isVoterRegistered s a))"
  by (induction vs arbitrary: s) (auto simp: recordVoter_def grantRole'_def fun_eq_iff)

lemma batchLoop_time:
  "voterRegistrationTime (batchLoop now vs s) =
     (\<lambda>a. if a \<in> set vs \<and> \<not> isVoterRegistered s a then now else voterRegistrationTime s a)"
  by (induction vs arbitrary: s) (auto simp: recordVoter_def grantRole'_def fun_eq_iff)

lemma batchLoop_registered:
  "isVoterRegistered (batchLoop now vs s) = (\<lambda>a. isVoterRegistered s a \<or> a \<in> set vs)"
  by (induction vs arbitrary: s) (auto simp: recordVoter_def grantRole'_def fun_eq_iff)

lemma batchLoop_rest:
  "paused (batchLoop now vs s) = paused s"
  "electionIdCounter (batchLoop now vs s) = electionIdCounter s"
  "candidateIdCounter (batchLoop now vs s) = candidateIdCounter s"
  "elections (batchLoop now vs s) = elections s"
  "candidates (batchLoop now vs s) = candidates s"
  "voterProfiles (batchLoop now vs s) = voterProfiles s"
  "VotingContract.more (batchLoop now vs s) = VotingContract.more s"
  by (induction vs arbitrary: s) (simp_all add: recordVoter_def grantRole'_def)

lemma batchLoop_closed:
  "batchLoop now vs s = s\<lparr>
      roles := (\<lambda>r a. roles s r a \<or> (r = VOTER_ROLE \<and> a \<in> set vs \<and> \<not> isVoterRegistered s a)),
      voterRegistrationTime := (\<lambda>a. if a \<in> set vs \<and> \<not> isVoterRegistered s a then now
                                      else voterRegistrationTime s a),
      isVoterRegistered := (\<lambda>a. isVoterRegistered s a \<or> a \<in> set vs) \<rparr>"
  by (rule VotingContract.equality)
     (simp_all add: batchLoop_roles batchLoop_time batchLoop_registered batchLoop_rest)

text \<open>
  C8. Called by an administrator, \<open>batchRegisterVoters\<close> fails with the empty-batch
  error on an empty list and with the batch-too-large error on more than 100 entries.
  On any other list it succeeds as a whole, and the new storage differs from the old one
  in exactly this: every listed principal that was not registered is now registered, holds
  the Voter role and has the current timestamp; a principal that was already registered,
  listed or not, keeps its timestamp and its roles, and nothing else changes.
\<close>

theorem batchRegisterVoters_spec:
  assumes "hasRole s ADMIN_ROLE sender"
  shows "(batch = [] \<longrightarrow> batchRegisterVoters s sender now batch = Inl EmptyVotersArray)
    \<and> (100 < length batch \<longrightarrow>
         batchRegisterVoters s sender now batch = Inl TooManyVotersInBatch)
    \<and> (batch \<noteq> [] \<and> length batch \<le> 100 \<longrightarrow>
         batchRegisterVoters s sender now batch = Inr (s\<lparr>
           roles := (\<lambda>r a. roles s r a
                       \<or> (r = VOTER_ROLE \<and> a \<in> set batch \<and> \<not> isVoterRegistered s a)),
           voterRegistrationTime :=
             (\<lambda>a. if a \<in> set batch \<and> \<not> isVoterRegistered s a then now
                   else voterRegistrationTime s a),
           isVoterRegistered := (\<lambda>a. isVoterRegistered s a \<or> a \<in> set batch) \<rparr>))"
proof (intro conjI impI)
  assume "batch = []"
  then show "batchRegisterVoters s sender now batch = Inl EmptyVotersArray"
    using assms by (simp add: batchRegisterVoters_def)
next
  assume "100 < length batch"
  then show "batchRegisterVoters s sender now batch = Inl TooManyVotersInBatch"
    using assms by (auto simp: batchRegisterVoters_def)
next
  assume "batch \<noteq> [] \<and> length batch \<le> 100"
  then have "batchRegisterVoters s sender now batch = Inr (batchLoop now batch s)"
    using assms by (simp add: batchRegisterVoters_def)
  then show "batchRegisterVoters s sender now batch = Inr (s\<lparr>
           roles := (\<lambda>r a. roles s r a
                       \<or> (r = VOTER_ROLE \<and> a \<in> set batch \<and> \<not> isVoterRegistered s a)),
           voterRegistrationTime :=
             (\<lambda>a. if a \<in> set batch \<and> \<not> isVoterRegistered s a then now
                   else voterRegistrationTime s a),
           isVoterRegistered := (\<lambda>a. isVoterRegistered s a \<or> a \<in> set batch) \<rparr>)"
    by (simp only: batchLoop_closed)
qed

theorem batchRegisterVoters_spec_witness:
  "batchRegisterVoters openState 1 50 [] = Inl EmptyVotersArray
   \<and> batchRegisterVoters openState 1 50 (replicate 101 3) = Inl TooManyVotersInBatch
   \<and> batchRegisterVoters openState 1 50 [2, 3, 2] = Inr (openState\<lparr>
           roles := (\<lambda>r a. roles openState r a
                       \<or> (r = VOTER_ROLE \<and> a \<in> set [2, 3, 2] \<and> \<not> isVoterRegistered openState a)),
           voterRegistrationTime :=
             (\<lambda>a. if a \<in> set [2, 3, 2] \<and> \<not> isVoterRegistered openState a then 50
                   else voterRegistrationTime openState a),
           isVoterRegistered := (\<lambda>a. isVoterRegistered openState a \<or> a \<in> set [2, 3, 2]) \<rparr>)"
proof -
  have a: "hasRole openState ADMIN_ROLE 1"
    by (rule openState_facts)
  show ?thesis
    using batchRegisterVoters_spec [OF a, of "[]" 50]
      batchRegisterVoters_spec [OF a, of "replicate 101 3" 50]
      batchRegisterVoters_spec [OF a, of "[2, 3, 2]" 50]
    by simp
qed

text \<open>
  C9. For a principal that is not yet registered, \<open>registerVoter\<close> called by an
  administrator succeeds, stores the current timestamp, marks the principal as registered
  and grants the Voter role; a second call by an administrator, at any time, fails with
  the already-registered error, and the transaction leaves the storage exactly as the
  first call left it.
\<close>

theorem registerVoter_twice:
  assumes "hasRole s ADMIN_ROLE admin1" and "hasRole s ADMIN_ROLE admin2"
    and "\<not> isVoterRegistered s P"
  shows "registerVoter s admin1 t1 P = Inr (recordVoter t1 P s)
    \<and> isVoterRegistered (recordVoter t1 P s) P
    \<and> voterRegistrationTime (recordVoter t1 P s) P = t1
    \<and> hasRole (recordVoter t1 P s) VOTER_ROLE P
    \<and> registerVoter (recordVoter t1 P s) admin2 t2 P = Inl VoterAlreadyRegistered
    \<and> transact (recordVoter t1 P s) (admin2, t2, RegisterVoter P) = recordVoter t1 P s"
proof -
  have first: "registerVoter s admin1 t1 P = Inr (recordVoter t1 P s)"
    using assms by (simp add: registerVoter_def)
  have reg: "isVoterRegistered (recordVoter t1 P s) P"
    by (simp add: recordVoter_def)
  have time: "voterRegistrationTime (recordVoter t1 P s) P = t1"
    by (simp add: recordVoter_def)
  have voter: "hasRole (recordVoter t1 P s) VOTER_ROLE P"
    by (simp add: hasRole_recordVoter)
  have still_admin: "hasRole (recordVoter t1 P s) ADMIN_ROLE admin2"
    using assms(2) by (simp add: hasRole_recordVoter)
  have second: "registerVoter (recordVoter t1 P s) admin2 t2 P = Inl VoterAlreadyRegistered"
    using still_admin reg by (simp add: registerVoter_def)
  have same: "transact (recordVoter t1 P s) (admin2, t2, RegisterVoter P) = recordVoter t1 P s"
    using second by simp
  from first reg time voter second same show ?thesis by blast
qed

theorem registerVoter_twice_witness:
  "registerVoter (constructor 1) 1 100 2 = Inr (recordVoter 100 2 (constructor 1))
   \<and> voterRegistrationTime (recordVoter 100 2 (constructor 1)) 2 = 100
   \<and> registerVoter (recordVoter 100 2 (constructor 1)) 1 200 2 = Inl VoterAlreadyRegistered
   \<and> transact (recordVoter 100 2 (constructor 1)) (1, 200, RegisterVoter 2)
       = recordVoter 100 2 (constructor 1)"
proof -
  have a: "hasRole (constructor 1) ADMIN_ROLE 1"
    by (simp add: constructor_def hasRole_def grantRole'_def)
  have n: "\<not> isVoterRegistered (constructor 1) 2"
    by (simp add: constructor_def grantRole'_def)
  show ?thesis using registerVoter_twice [OF a a n, of 100 200] by blast
qed

section \<open>Tally consistency of the role-based contract\<close>

lemma ledgerInv_tally: "ledgerInv s \<Longrightarrow> tallyOk (elections s i)"
  by (simp add: ledgerInv_def)

lemma ledgerInv_fresh:
  "ledgerInv s \<Longrightarrow> i = 0 \<or> electionIdCounter s < i \<Longrightarrow>
     hasVoted (elections s i) = (\<lambda>_. False) \<and> votes (elections s i) = (\<lambda>_. 0)"
  unfolding ledgerInv_def by blast

lemma tallyOk_fresh:
  "hasVoted e = (\<lambda>_. False) \<Longrightarrow> votes e = (\<lambda>_. 0) \<Longrightarrow> totalVotes e = 0 \<Longrightarrow> tallyOk e"
  by (simp add: tallyOk_def)

lemma support_upd:
  fixes f :: "nat \<Rightarrow> nat"
  shows "{c. 0 < (f(k := f k + 1)) c} = insert k {c. 0 < f c}"
  by auto

lemma sum_support_incr:
  fixes f :: "nat \<Rightarrow> nat"
  assumes "finite {c. 0 < f c}"
  shows "sum (f(k := f k + 1)) {c. 0 < (f(k := f k + 1)) c} = sum f {c. 0 < f c} + 1"
proof -
  let ?S = "{c. 0 < f c}"
  have a: "sum (f(k := f k + 1)) (insert k ?S) = (f k + 1) + sum (f(k := f k + 1)) (?S - {k})"
    using assms by (simp add: sum.insert_remove)
  have b: "sum (f(k := f k + 1)) (?S - {k}) = sum f (?S - {k})"
    by (rule sum.cong) auto
  have c: "f k + sum f (?S - {k}) = sum f ?S"
  proof (cases "k \<in> ?S")
    case True
    then show ?thesis using assms by (simp add: sum.remove)
  next
    case False
    then have "f k = 0" "?S - {k} = ?S" by auto
    then show ?thesis by simp
  qed
  show ?thesis
    unfolding support_upd using a b c by linarith
qed

lemma card_voted_incr:
  assumes "\<not> hv (a::address)"
  shows "card {x. (hv(a := True)) x} = card {x. hv x} + 1"
proof -
  have "{x. (hv(a := True)) x} = insert a {x. hv x}" by auto
  moreover have "a \<notin> {x. hv x}" using assms by simp
  ultimately show ?thesis by simp
qed

lemma tallyOk_recorded:
  assumes "tallyOk e" and "\<not> hasVoted e a"
  shows "tallyOk (e\<lparr> hasVoted := (hasVoted e)(a := True),
                     votes := (votes e)(c := votes e c + 1),
                     totalVotes := totalVotes e + 1 \<rparr>)"
proof -
  from assms(1) have fin: "finite {x. 0 < votes e x}"
    and tot: "totalVotes e = sum (votes e) {x. 0 < votes e x}"
    and crd: "totalVotes e = card {x. hasVoted e x}"
    by (simp_all add: tallyOk_def)
  have "finite {x. 0 < ((votes e)(c := votes e c + 1)) x}"
    unfolding support_upd using fin by simp
  moreover have "totalVotes e + 1 = sum ((votes e)(c := votes e c + 1))
      {x. 0 < ((votes e)(c := votes e c + 1)) x}"
    using sum_support_incr [OF fin, of c] tot by simp
  moreover have "totalVotes e + 1 = card {x. ((hasVoted e)(a := True)) x}"
    using card_voted_incr [of "hasVoted e" a] assms(2) crd by simp
  ultimately show ?thesis
    by (simp add: tallyOk_def del: fun_upd_apply)
qed

lemma ledgerInv_same:
  assumes "ledgerInv s" "elections s' = elections s" "electionIdCounter s' = electionIdCounter s"
  shows "ledgerInv s'"
  using assms by (simp add: ledgerInv_def)

lemma ledgerInv_recordVoter: "ledgerInv s \<Longrightarrow> ledgerInv (recordVoter now v s)"
  by (erule ledgerInv_same) (simp_all add: recordVoter_def grantRole'_def)

lemma ledgerInv_createElection:
  assumes "ledgerInv s" "createElection s sender now t d st en cs = Inr s'"
  shows "ledgerInv s'"
proof -
  let ?n = "electionIdCounter s + 1"
  let ?new = "(elections s ?n)
              \<lparr> e_id := ?n, e_title := t, e_description := d, startTime := st, endTime := en,
                isActive := True, totalVotes := 0, candidateIds := cs,
                creator := sender, createdAt := now \<rparr>"
  have fresh: "hasVoted (elections s ?n) = (\<lambda>_. False) \<and> votes (elections s ?n) = (\<lambda>_. 0)"
    using assms(1) by (rule ledgerInv_fresh) simp
  from assms(2) have cnt: "electionIdCounter s' = ?n"
    and els: "elections s' = (elections s)(?n := ?new)"
    by (auto simp: createElection_def Let_def split: if_splits)
  have new: "tallyOk ?new"
    using fresh by (intro tallyOk_fresh) simp_all
  show ?thesis
    unfolding ledgerInv_def
  proof (intro allI conjI impI)
    fix i
    show "tallyOk (elections s' i)"
      using new ledgerInv_tally [OF assms(1), of i] by (simp add: els)
    assume "i = 0 \<or> electionIdCounter s' < i"
    then have "i \<noteq> ?n" "i = 0 \<or> electionIdCounter s < i" by (auto simp: cnt)
    then show "hasVoted (elections s' i) = (\<lambda>_. False)" "votes (elections s' i) = (\<lambda>_. 0)"
      using ledgerInv_fresh [OF assms(1), of i] by (simp_all add: els)
  qed
qed

lemma ledgerInv_castVote:
  assumes "ledgerInv s" "castVote s sender now e c = Inr s'"
  shows "ledgerInv s'"
proof -
  let ?new = "(elections s e)
             \<lparr> hasVoted := (hasVoted (elections s e))(sender := True),
               votes := (votes (elections s e))(c := votes (elections s e) c + 1),
               totalVotes := totalVotes (elections s e) + 1 \<rparr>"
  from assms(2) have ok: "e \<noteq> 0" "e \<le> electionIdCounter s" "\<not> hasVoted (elections s e) sender"
    and s': "s' = recordVote sender e c s"
    by (auto simp: castVote_def split: if_splits)
  have cnt: "electionIdCounter s' = electionIdCounter s"
    by (simp add: s' recordVote_def Let_def)
  have els: "elections s' = (elections s)(e := ?new)"
    by (simp add: s' recordVote_def Let_def)
  have new: "tallyOk ?new"
    using ledgerInv_tally [OF assms(1)] ok(3) by (rule tallyOk_recorded)
  show ?thesis
    unfolding ledgerInv_def
  proof (intro allI conjI impI)
    fix i
    show "tallyOk (elections s' i)"
      using new ledgerInv_tally [OF assms(1), of i] by (simp add: els)
    assume "i = 0 \<or> electionIdCounter s' < i"
    then have "i \<noteq> e" "i = 0 \<or> electionIdCounter s < i" using ok by (auto simp: cnt)
    then show "hasVoted (elections s' i) = (\<lambda>_. False)" "votes (elections s' i) = (\<lambda>_. 0)"
      using ledgerInv_fresh [OF assms(1), of i] by (simp_all add: els)
  qed
qed

lemma tallyOk_isActive: "tallyOk (e\<lparr> isActive := b \<rparr>) = tallyOk e"
  by (simp add: tallyOk_def)

lemma ledgerInv_isActive:
  assumes "ledgerInv s"
  shows "ledgerInv (s\<lparr> elections := (elections s)(e := (elections s e)\<lparr> isActive := b \<rparr>) \<rparr>)"
  using assms by (simp add: ledgerInv_def tallyOk_isActive)

lemma ledgerInv_dispatch:
  assumes "ledgerInv s" "dispatch s sender now c = Inr s'"
  shows "ledgerInv s'"
proof (cases c)
  case (RegisterVoter v)
  with assms show ?thesis
    by (auto simp: registerVoter_def ledgerInv_recordVoter split: if_splits)
next
  case (GrantElectionCreatorRole a)
  with assms show ?thesis
    by (auto simp: grantElectionCreatorRole_def grantRole'_def split: if_splits
             intro: ledgerInv_same)
next
  case (RevokeElectionCreatorRole a)
  with assms show ?thesis
    by (auto simp: revokeElectionCreatorRole_def revokeRole'_def split: if_splits
             intro: ledgerInv_same)
next
  case (BatchRegisterVoters vs)
  with assms show ?thesis
    by (auto simp: batchRegisterVoters_def batchLoop_rest split: if_splits
             intro: ledgerInv_same)
next
  case (CreateElection t d st en cs)
  with assms show ?thesis by (auto intro: ledgerInv_createElection)
next
  case (AddCandidate n d)
  with assms show ?thesis
    by (auto simp: addCandidate_def Let_def split: if_splits intro: ledgerInv_same)
next
  case (CastVote e c)
  with assms show ?thesis by (auto intro: ledgerInv_castVote)
next
  case (EndElection e)
  with assms show ?thesis
    by (auto simp: endElection_def ledgerInv_isActive split: if_splits)
next
  case (ToggleElectionStatus e)
  with assms show ?thesis
    by (auto simp: toggleElectionStatus_def ledgerInv_isActive split: if_splits)
next
  case Pause
  with assms show ?thesis
    by (auto simp: pause_def split: if_splits intro: ledgerInv_same)
next
  case Unpause
  with assms show ?thesis
    by (auto simp: unpause_def split: if_splits intro: ledgerInv_same)
qed

lemma ledgerInv_transact: "ledgerInv s \<Longrightarrow> ledgerInv (transact s tx)"
  by (cases tx) (auto split: sum.splits intro: ledgerInv_dispatch)

lemma ledgerInv_run: "ledgerInv s \<Longrightarrow> ledgerInv (run s txs)"
  unfolding run_def by (induction txs arbitrary: s) (simp_all add: ledgerInv_transact)

lemma ledgerInv_constructor: "ledgerInv (constructor d)"
  by (simp add: ledgerInv_def constructor_def grantRole'_def tallyOk_def emptyElection_def)

text \<open>
  C1. In every storage the contract can reach from its deployment, through any sequence
  of transactions (registrations, role grants, candidates, elections, votes, ending and
  toggling, pausing), every election slot has a total that equals the sum of its
  per-candidate counts and equals the number of addresses marked as having voted; and
  the equality holds again after any further transaction.
\<close>

theorem tally_invariant:
  "let s = run (constructor deployer) txs;
       s' = transact s tx;
       tally = (\<lambda>e. totalVotes e = sum (votes e) {c. 0 < votes e c}
                    \<and> totalVotes e = card {a. hasVoted e a})
   in tally (elections s i) \<and> tally (elections s' i)"
proof -
  have inv: "ledgerInv (run (constructor deployer) txs)"
    using ledgerInv_constructor by (rule ledgerInv_run)
  then have before: "tallyOk (elections (run (constructor deployer) txs) i)"
    by (rule ledgerInv_tally)
  from inv have "ledgerInv (transact (run (constructor deployer) txs) tx)"
    by (rule ledgerInv_transact)
  then have after: "tallyOk (elections (transact (run (constructor deployer) txs) tx) i)"
    by (rule ledgerInv_tally)
  from before after show ?thesis
    unfolding tallyOk_def Let_def by blast
qed

theorem tally_invariant_witness:
  "totalVotes (elections openState 1) = 0
   \<and> sum (votes (elections openState 1)) {c. 0 < votes (elections openState 1) c} = 0
   \<and> card {a. hasVoted (elections openState 1) a} = 0
   \<and> totalVotes (elections votedState 1) = 1
   \<and> sum (votes (elections votedState 1)) {c. 0 < votes (elections votedState 1) c} = 1
   \<and> card {a. hasVoted (elections votedState 1) a} = 1"
proof -
  have zero: "totalVotes (elections openState 1) = 0"
    by (rule openState_facts)
  have one: "totalVotes (elections votedState 1) = 1"
    by (rule votedState_facts)
  have inst:
    "(totalVotes (elections openState 1)
        = sum (votes (elections openState 1)) {c. 0 < votes (elections openState 1) c}
      \<and> totalVotes (elections openState 1) = card {a. hasVoted (elections openState 1) a})
     \<and> (totalVotes (elections votedState 1)
        = sum (votes (elections votedState 1)) {c. 0 < votes (elections votedState 1) c}
      \<and> totalVotes (elections votedState 1) = card {a. hasVoted (elections votedState 1) a})"
    using tally_invariant [of 1 setupTxs "(2, 10, CastVote 1 1)" 1]
    unfolding openState_def [symmetric] votedState_def [symmetric] Let_def .
  from inst zero one show ?thesis
    by (elim conjE) (intro conjI; linarith)
qed

section \<open>Casting a vote\<close>

lemma candidateInElection_set: "candidateInElection cs c \<longleftrightarrow> c \<in> set cs"
  by (induction cs) auto

lemma recordVote_effect:
  "hasVoted (elections (recordVote sender e c s) e) sender"
  "votes (elections (recordVote sender e c s) e) c = votes (elections s e) c + 1"
  "totalVotes (elections (recordVote sender e c s) e) = totalVotes (elections s e) + 1"
  "voteCount (candidates (recordVote sender e c s) c) = voteCount (candidates s c) + 1"
  by (simp_all add: recordVote_def Let_def)

lemma transact_Inl: "dispatch s sender now c = Inl err \<Longrightarrow> transact s (sender, now, c) = s"
  by simp

lemma transact_Inr: "dispatch s sender now c = Inr s' \<Longrightarrow> transact s (sender, now, c) = s'"
  by simp

text \<open>
  C2 (as amended). \<open>castVote\<close> is all-or-nothing. Let the checks be: the caller holds
  the Voter role; the election exists, is active and the time lies in its window; the
  candidate exists and is in the roster; the caller has not voted in this election. If a
  check fails or the contract is paused, the call returns an error and the transaction
  leaves the storage as it was. If all checks pass and the contract is not paused, the
  call succeeds, and in the new storage the caller is marked as having voted in the
  election, the election's count for the candidate and its total are one higher, and the
  candidate's global vote count is one higher.
\<close>

theorem castVote_all_or_nothing:
  "let checks = (hasRole s VOTER_ROLE sender
          \<and> e \<noteq> 0 \<and> e \<le> electionIdCounter s
          \<and> isActive (elections s e)
          \<and> startTime (elections s e) \<le> now \<and> now \<le> endTime (elections s e)
          \<and> c_exists (candidates s c) \<and> c \<in> set (candidateIds (elections s e))
          \<and> \<not> hasVoted (elections s e) sender);
       s' = recordVote sender e c s
   in (\<not> (checks \<and> \<not> paused s) \<longrightarrow>
         (\<exists>err. castVote s sender now e c = Inl err)
         \<and> transact s (sender, now, CastVote e c) = s)
    \<and> (checks \<and> \<not> paused s \<longrightarrow>
         castVote s sender now e c = Inr s'
         \<and> transact s (sender, now, CastVote e c) = s'
         \<and> hasVoted (elections s' e) sender
         \<and> votes (elections s' e) c = votes (elections s e) c + 1
         \<and> totalVotes (elections s' e) = totalVotes (elections s e) + 1
         \<and> voteCount (candidates s' c) = voteCount (candidates s c) + 1)"
proof -
  let ?checks = "hasRole s VOTER_ROLE sender
          \<and> e \<noteq> 0 \<and> e \<le> electionIdCounter s
          \<and> isActive (elections s e)
          \<and> startTime (elections s e) \<le> now \<and> now \<le> endTime (elections s e)
          \<and> c_exists (candidates s c) \<and> c \<in> set (candidateIds (elections s e))
          \<and> \<not> hasVoted (elections s e) sender"
  have fail: "\<exists>err. castVote s sender now e c = Inl err" if "\<not> (?checks \<and> \<not> paused s)"
    using that by (auto simp: castVote_def candidateInElection_set)
  have fail_tx: "transact s (sender, now, CastVote e c) = s" if "\<not> (?checks \<and> \<not> paused s)"
    using fail [OF that] by auto
  have pass: "castVote s sender now e c = Inr (recordVote sender e c s)"
    if "?checks \<and> \<not> paused s"
    using that by (simp add: castVote_def candidateInElection_set)
  have pass_tx: "transact s (sender, now, CastVote e c) = recordVote sender e c s"
    if "?checks \<and> \<not> paused s"
    using pass [OF that] by simp
  show ?thesis
    unfolding Let_def using fail fail_tx pass pass_tx recordVote_effect by blast
qed

theorem castVote_all_or_nothing_witness:
  "castVote openState 2 10 1 1 = Inr (recordVote 2 1 1 openState)
   \<and> totalVotes (elections (recordVote 2 1 1 openState) 1) = 1
   \<and> (\<exists>err. castVote openState 3 10 1 1 = Inl err)
   \<and> transact openState (3, 10, CastVote 1 1) = openState"
proof -
  show ?thesis
    using castVote_all_or_nothing [of openState 2 1 10 1]
      castVote_all_or_nothing [of openState 3 1 10 1] openState_facts
    by (simp add: Let_def)
qed

theorem castVote_paused_counterexample:
  "hasRole pausedState VOTER_ROLE 2
   \<and> electionIdCounter pausedState = 1
   \<and> isActive (elections pausedState 1)
   \<and> startTime (elections pausedState 1) = 10
   \<and> endTime (elections pausedState 1) = 3600
   \<and> c_exists (candidates pausedState 1)
   \<and> candidateIds (elections pausedState 1) = [1, 2]
   \<and> \<not> hasVoted (elections pausedState 1) 2
   \<and> castVote pausedState 2 10 1 1 = Inl PausablePaused
   \<and> transact pausedState (2, 10, CastVote 1 1) = pausedState"
  using pausedState_facts by (simp add: castVote_def)

text \<open>
  C5 (as amended). Take an existing, active election whose window is well formed, a
  caller with the Voter role who has not voted in it, and a candidate of its roster that
  exists, while the contract is not paused. A vote at exactly the start time succeeds and
  so does a vote at exactly the end time; a vote strictly before the start time fails
  with the not-started error, and a vote strictly after the end time fails with the
  ended error.
\<close>

theorem voting_window:
  assumes "hasRole s VOTER_ROLE sender"
    and "e \<noteq> 0" and "e \<le> electionIdCounter s"
    and "isActive (elections s e)"
    and "startTime (elections s e) \<le> endTime (elections s e)"
    and "c_exists (candidates s c)"
    and "c \<in> set (candidateIds (elections s e))"
    and "\<not> hasVoted (elections s e) sender"
    and "\<not> paused s"
  shows "(now = startTime (elections s e) \<longrightarrow>
            castVote s sender now e c = Inr (recordVote sender e c s))
    \<and> (now = endTime (elections s e) \<longrightarrow>
            castVote s sender now e c = Inr (recordVote sender e c s))
    \<and> (now < startTime (elections s e) \<longrightarrow>
            castVote s sender now e c = Inl (ElectionNotStarted e))
    \<and> (endTime (elections s e) < now \<longrightarrow>
            castVote s sender now e c = Inl (ElectionEnded e))"
  using assms by (auto simp: castVote_def candidateInElection_set)

theorem voting_window_witness:
  "castVote openState 2 10 1 1 = Inr (recordVote 2 1 1 openState)
   \<and> castVote openState 2 3600 1 1 = Inr (recordVote 2 1 1 openState)
   \<and> castVote openState 2 9 1 1 = Inl (ElectionNotStarted 1)
   \<and> castVote openState 2 3601 1 1 = Inl (ElectionEnded 1)"
proof -
  have h: "hasRole openState VOTER_ROLE 2" "(1::nat) \<noteq> 0" "1 \<le> electionIdCounter openState"
    "isActive (elections openState 1)"
    "startTime (elections openState 1) \<le> endTime (elections openState 1)"
    "c_exists (candidates openState 1)" "1 \<in> set (candidateIds (elections openState 1))"
    "\<not> hasVoted (elections openState 1) 2" "\<not> paused openState"
    using openState_facts by simp_all
  show ?thesis
    using voting_window [OF h, of 10] voting_window [OF h, of 3600]
      voting_window [OF h, of 9] voting_window [OF h, of 3601] openState_facts
    by simp
qed

theorem voting_window_counterexample:
  "hasRole ghostState VOTER_ROLE 2
   \<and> electionIdCounter ghostState = 1
   \<and> isActive (elections ghostState 1)
   \<and> startTime (elections ghostState 1) = 10
   \<and> endTime (elections ghostState 1) = 20
   \<and> candidateIds (elections ghostState 1) = [7]
   \<and> \<not> hasVoted (elections ghostState 1) 2
   \<and> \<not> paused ghostState
   \<and> castVote ghostState 2 10 1 7 = Inl (CandidateNotFound 7)
   \<and> paused pausedState
   \<and> castVote pausedState 2 3600 1 1 = Inl PausablePaused"
  using ghostState_facts pausedState_facts by (simp add: castVote_def)

section \<open>Creating an election\<close>

text \<open>
  C3 (as amended). \<open>createElection\<close> does not look at the candidate ids it is given.
  It never fails with the candidate-not-found error; it succeeds exactly when the caller
  holds the ElectionCreator role, the contract is not paused and the start time lies
  before the end time and after the current time, whatever the roster is; and on success
  the new election has the next id and stores the roster as supplied, be it empty or
  naming candidates that do not exist, while the candidate table is unchanged.
\<close>

theorem createElection_roster_unchecked:
  "createElection s sender now t d st en cs \<noteq> Inl (CandidateNotFound k)
   \<and> ((\<exists>s'. createElection s sender now t d st en cs = Inr s') \<longleftrightarrow>
        hasRole s ELECTION_CREATOR_ROLE sender \<and> \<not> paused s \<and> st < en \<and> now < st)
   \<and> (\<forall>s'. createElection s sender now t d st en cs = Inr s' \<longrightarrow>
        electionIdCounter s' = electionIdCounter s + 1
        \<and> candidateIds (elections s' (electionIdCounter s')) = cs
        \<and> candidates s' = candidates s)"
  by (auto simp: createElection_def Let_def)

theorem createElection_roster_unchecked_witness:
  "createElection (constructor 1) 1 0 ''E'' ''ghost'' 10 20 [7] \<noteq> Inl (CandidateNotFound 7)
   \<and> (\<exists>s'. createElection (constructor 1) 1 0 ''E'' ''ghost'' 10 20 [7] = Inr s')"
proof -
  have "hasRole (constructor 1) ELECTION_CREATOR_ROLE 1" "\<not> paused (constructor 1)"
    by (simp_all add: constructor_def hasRole_def grantRole'_def)
  then show ?thesis
    using createElection_roster_unchecked [of "constructor 1" 1 0 "''E''" "''ghost''" 10 20 "[7]" 7]
    by simp
qed

theorem createElection_counterexample:
  "\<not> c_exists (candidates (constructor 1) 7)
   \<and> electionIdCounter (constructor 1) = 0
   \<and> electionIdCounter (transact (constructor 1)
        (1, 0, CreateElection ''E'' ''ghost'' 10 20 [7])) = 1
   \<and> candidateIds (elections (transact (constructor 1)
        (1, 0, CreateElection ''E'' ''ghost'' 10 20 [7])) 1) = [7]
   \<and> candidateIds (elections (transact (constructor 1)
        (1, 0, CreateElection ''E'' ''empty'' 10 20 [])) 1) = []
   \<and> isActive (elections (transact (constructor 1)
        (1, 0, CreateElection ''E'' ''empty'' 10 20 [])) 1)"
  by (simp add: constructor_def emptyCandidate_def hasRole_def grantRole'_def
      createElection_def Let_def)

section \<open>Pausing\<close>




section \<open>Administrators\<close>












section \<open>Registered voters\<close>






section \<open>The has-voted flag of the owner-gated contract\<close>










end
